theory Spec2Isabelle
  imports Main "HOL-Library.AList"
begin

section \<open>Values exchanged with the platform\<close>

text \<open>
  The service worker \<^verbatim>\<open>sw.js\<close> talks to four platform facilities: the network
  (\<^verbatim>\<open>fetch\<close>), the cache storage (\<^verbatim>\<open>caches\<close>), IndexedDB and the notification
  service. Each handler is modelled as a function from the event and the state of the
  stores to a report holding the new state and what the handler handed back.
  A rejected promise or a thrown exception is a value of \<open>js_error\<close>. Parsed JSON
  numbers are carried as integers: the handlers only pass them on or test them for zero.
\<close>

datatype js_error = TypeError | SyntaxError | OpenError

datatype json =
    JNull
  | JBool bool
  | JNum int
  | JStr string
  | JArr "json list"
  | JObj "(string \<times> json) list"

datatype response_type = Basic | Cors | DefaultType | ErrorType | Opaque | OpaqueRedirect

record request =
  req_method :: string
  req_url :: string
  req_headers :: "(string \<times> string) list"
  req_body :: "json option"

record response =
  resp_status :: nat
  resp_statusText :: string
  resp_type :: response_type
  resp_headers :: "(string \<times> string) list"
  resp_body :: string

text \<open>
  \<^verbatim>\<open>fetch\<close> either rejects (the network is unreachable) or resolves with a response of
  any HTTP status. The network is a parameter of every handler. URLs are written as the
  source writes them, relative to the origin of the worker (\<^verbatim>\<open>'/index.html'\<close>); a
  request is looked up in a cache by its URL.
\<close>

datatype fetch_result = Rejected | Resolved response

type_synonym network = "request \<Rightarrow> fetch_result"

text \<open>
  A cache maps request URLs to responses; the cache storage maps cache names to caches and
  keeps them in creation order, the order in which \<^verbatim>\<open>caches.match\<close> and
  \<^verbatim>\<open>caches.keys\<close> walk them. The object store \<^verbatim>\<open>pending_sync\<close> of the database
  \<^verbatim>\<open>LiteraVerseDB\<close> holds records keyed by \<^verbatim>\<open>id\<close>, listed in key order.
\<close>

type_synonym cache = "(string \<times> response) list"

type_synonym cache_storage = "(string \<times> cache) list"

record item =
  item_id :: nat
  item_url :: string
  item_data :: json

record world =
  caches :: cache_storage
  pending_sync :: "item list"

section \<open>Strings and headers\<close>

fun startsWith :: "string \<Rightarrow> string \<Rightarrow> bool" where
  "startsWith s [] = True"
| "startsWith [] (c # cs) = False"
| "startsWith (x # xs) (c # cs) = (x = c \<and> startsWith xs cs)"

fun str_includes :: "string \<Rightarrow> string \<Rightarrow> bool" where
  "str_includes [] sub = (sub = [])"
| "str_includes (x # xs) sub = (startsWith (x # xs) sub \<or> str_includes xs sub)"

text \<open>
  \<^verbatim>\<open>headers.get(name)\<close> yields \<^verbatim>\<open>null\<close> (here \<open>None\<close>) when the header is absent.
  Header names are kept in lower case, as the \<^verbatim>\<open>Headers\<close> object compares them.
\<close>

definition headers_get :: "(string \<times> string) list \<Rightarrow> string \<Rightarrow> string option" where
  "headers_get hs name = map_of hs name"

section \<open>Cache storage\<close>

definition CACHE_NAME :: string where
  "CACHE_NAME = ''literaverse-v3''"

definition urlsToCache :: "string list" where
  "urlsToCache =
     [''/'',
      ''/index.html'',
      ''/styles.css'',
      ''/script.js'',
      ''/reader.html'',
      ''/dashboard.html'',
      ''/bookshelf.html'',
      ''/community.html'',
      ''/profile.html'',
      ''/manifest.json'',
      ''/assets/icons/icon-192x192.png'',
      ''/assets/icons/icon-512x512.png'']"

text \<open>\<^verbatim>\<open>caches.match(request)\<close>: the first cache, in creation order, that holds the URL.\<close>

fun caches_match :: "cache_storage \<Rightarrow> string \<Rightarrow> response option" where
  "caches_match [] u = None"
| "caches_match ((name, c) # cs) u =
     (case map_of c u of Some r \<Rightarrow> Some r | None \<Rightarrow> caches_match cs u)"

text \<open>
  \<^verbatim>\<open>caches.open(name)\<close> yields the cache of that name and creates an empty one, last in
  creation order, when there is none. \<open>opened\<close> is the content of the cache handed back
  and \<open>caches_store\<close> writes a cache back under its name.
\<close>

definition opened :: "cache_storage \<Rightarrow> string \<Rightarrow> cache" where
  "opened cs name = (case map_of cs name of Some c \<Rightarrow> c | None \<Rightarrow> [])"

definition caches_store :: "string \<Rightarrow> cache \<Rightarrow> cache_storage \<Rightarrow> cache_storage" where
  "caches_store name c cs = AList.update name c cs"

definition cache_put :: "string \<Rightarrow> response \<Rightarrow> cache \<Rightarrow> cache" where
  "cache_put u r c = AList.update u r c"

definition caches_put :: "string \<Rightarrow> string \<Rightarrow> response \<Rightarrow> cache_storage \<Rightarrow> cache_storage" where
  "caches_put name u r cs = caches_store name (cache_put u r (opened cs name)) cs"

definition caches_keys :: "cache_storage \<Rightarrow> string list" where
  "caches_keys cs = map fst cs"

definition caches_delete :: "string \<Rightarrow> cache_storage \<Rightarrow> cache_storage" where
  "caches_delete name cs = AList.delete name cs"

text \<open>Reading one key of one named cache (\<^verbatim>\<open>caches.match(url, {cacheName})\<close>).\<close>

definition cache_get :: "cache_storage \<Rightarrow> string \<Rightarrow> string \<Rightarrow> response option" where
  "cache_get cs name u = (case map_of cs name of Some c \<Rightarrow> map_of c u | None \<Rightarrow> None)"

section \<open>Install\<close>

text \<open>
  \<^verbatim>\<open>cache.addAll(urls)\<close> fetches every URL with a GET request and rejects with a
  \<^verbatim>\<open>TypeError\<close>, writing nothing, as soon as one fetch rejects or resolves with a
  status outside 200..299; otherwise it stores every response under its URL.
\<close>

definition get_request :: "string \<Rightarrow> request" where
  "get_request u = \<lparr>req_method = ''GET'', req_url = u, req_headers = [], req_body = None\<rparr>"

definition response_ok :: "response \<Rightarrow> bool" where
  "response_ok r = (200 \<le> resp_status r \<and> resp_status r \<le> 299)"

fun fetch_all :: "network \<Rightarrow> string list \<Rightarrow> (string \<times> response) list option" where
  "fetch_all net [] = Some []"
| "fetch_all net (u # us) =
     (case net (get_request u) of
        Rejected \<Rightarrow> None
      | Resolved r \<Rightarrow>
          if response_ok r
          then (case fetch_all net us of None \<Rightarrow> None | Some es \<Rightarrow> Some ((u, r) # es))
          else None)"

definition cache_addAll :: "network \<Rightarrow> string list \<Rightarrow> cache \<Rightarrow> js_error + cache" where
  "cache_addAll net urls c =
     (case fetch_all net urls of
        None \<Rightarrow> Inl TypeError
      | Some es \<Rightarrow> Inr (fold (\<lambda>(u, r). cache_put u r) es c))"

record install_report =
  ir_result :: "js_error + unit"
  ir_skipWaiting :: bool
  ir_world :: world

text \<open>
  The install handler over an arbitrary manifest; \<open>install\<close> is the handler of the source,
  over \<open>urlsToCache\<close>. \<open>ir_result\<close> is the promise given to \<^verbatim>\<open>event.waitUntil\<close>: when
  it rejects the installation fails and \<^verbatim>\<open>self.skipWaiting()\<close> is never reached.
\<close>

definition install_with :: "string list \<Rightarrow> network \<Rightarrow> world \<Rightarrow> install_report" where
  "install_with manifest net w =
     (let c = opened (caches w) CACHE_NAME in
      case cache_addAll net manifest c of
        Inl e \<Rightarrow>
          \<lparr>ir_result = Inl e, ir_skipWaiting = False,
           ir_world = w\<lparr>caches := caches_store CACHE_NAME c (caches w)\<rparr>\<rparr>
      | Inr c' \<Rightarrow>
          \<lparr>ir_result = Inr (), ir_skipWaiting = True,
           ir_world = w\<lparr>caches := caches_store CACHE_NAME c' (caches w)\<rparr>\<rparr>)"

definition install :: "network \<Rightarrow> world \<Rightarrow> install_report" where
  "install = install_with urlsToCache"

section \<open>Activate\<close>

text \<open>
  The activate handler walks \<^verbatim>\<open>caches.keys()\<close> and deletes every cache whose name is
  not \<open>CACHE_NAME\<close>; \<^verbatim>\<open>self.clients.claim()\<close> touches neither store.
\<close>

definition activate :: "world \<Rightarrow> world" where
  "activate w =
     w\<lparr>caches :=
         fold (\<lambda>cacheName cs. if cacheName \<noteq> CACHE_NAME then caches_delete cacheName cs else cs)
           (caches_keys (caches w)) (caches w)\<rparr>"

section \<open>Fetch\<close>

text \<open>
  What the fetch handler hands to the browser: it returns without calling
  \<^verbatim>\<open>event.respondWith\<close> (\<open>NotIntercepted\<close>, the browser performs the request itself),
  or the promise given to \<^verbatim>\<open>respondWith\<close> resolves with a response or with
  \<^verbatim>\<open>undefined\<close> (\<open>Resolved_with None\<close>), or that promise rejects.
\<close>

datatype fetch_outcome =
    NotIntercepted
  | Resolved_with "response option"
  | Rejected_with js_error

record fetch_report =
  fr_outcome :: fetch_outcome
  fr_world :: world
  fr_calls :: "request list"

definition offline_response :: response where
  "offline_response =
     \<lparr>resp_status = 503, resp_statusText = ''Service Unavailable'', resp_type = DefaultType,
      resp_headers = [(''content-type'', ''text/plain'')], resp_body = ''You are offline''\<rparr>"

text \<open>
  The fetch handler. A resolved \<^verbatim>\<open>fetch\<close> always carries a response, so the test
  \<^verbatim>\<open>!response\<close> of the source never holds and has no branch here. The cache write
  is started without being awaited; it is taken as done. \<open>fr_calls\<close> lists the requests
  the handler itself sent to the network.
\<close>

definition onFetch :: "network \<Rightarrow> request \<Rightarrow> world \<Rightarrow> fetch_report" where
  "onFetch net r w =
     (if req_method r \<noteq> ''GET'' then
        \<lparr>fr_outcome = NotIntercepted, fr_world = w, fr_calls = []\<rparr>
      else if startsWith (req_url r) ''chrome-extension://'' then
        \<lparr>fr_outcome = NotIntercepted, fr_world = w, fr_calls = []\<rparr>
      else
        case caches_match (caches w) (req_url r) of
          Some cached \<Rightarrow>
            \<lparr>fr_outcome = Resolved_with (Some cached), fr_world = w, fr_calls = []\<rparr>
        | None \<Rightarrow>
            (case net r of
               Resolved resp \<Rightarrow>
                 if resp_status resp \<noteq> 200 \<or> resp_type resp \<noteq> Basic then
                   \<lparr>fr_outcome = Resolved_with (Some resp), fr_world = w, fr_calls = [r]\<rparr>
                 else
                   \<lparr>fr_outcome = Resolved_with (Some resp),
                    fr_world = w\<lparr>caches := caches_put CACHE_NAME (req_url r) resp (caches w)\<rparr>,
                    fr_calls = [r]\<rparr>
             | Rejected \<Rightarrow>
                 (case headers_get (req_headers r) ''accept'' of
                    None \<Rightarrow>
                      \<lparr>fr_outcome = Rejected_with TypeError, fr_world = w, fr_calls = [r]\<rparr>
                  | Some accept \<Rightarrow>
                      if str_includes accept ''text/html'' then
                        \<lparr>fr_outcome = Resolved_with (caches_match (caches w) ''/offline.html''),
                         fr_world = w, fr_calls = [r]\<rparr>
                      else
                        \<lparr>fr_outcome = Resolved_with (Some offline_response),
                         fr_world = w, fr_calls = [r]\<rparr>)))"

section \<open>Background sync\<close>

text \<open>
  \<^verbatim>\<open>openIDB\<close> resolves with \<^verbatim>\<open>request.result\<close>, the platform's \<^verbatim>\<open>IDBDatabase\<close>,
  or rejects when the database cannot be opened. The members of an \<^verbatim>\<open>IDBDatabase\<close>
  are listed below: calling any other name on it throws a \<^verbatim>\<open>TypeError\<close>
  (\<^verbatim>\<open>getAll\<close> and \<^verbatim>\<open>delete\<close> are methods of an object store, reached through a
  transaction, not of the database).
\<close>

definition IDBDatabase_members :: "string list" where
  "IDBDatabase_members =
     [''name'', ''version'', ''objectStoreNames'',
      ''onabort'', ''onclose'', ''onerror'', ''onversionchange'',
      ''close'', ''createObjectStore'', ''deleteObjectStore'', ''transaction'']"

definition replay_request :: "item \<Rightarrow> request" where
  "replay_request it =
     \<lparr>req_method = ''POST'', req_url = item_url it,
      req_headers = [(''content-type'', ''application/json'')],
      req_body = Some (item_data it)\<rparr>"

definition db_delete :: "nat \<Rightarrow> item list \<Rightarrow> item list" where
  "db_delete k store = filter (\<lambda>x. item_id x \<noteq> k) store"

text \<open>
  The \<^verbatim>\<open>for\<close> loop of \<^verbatim>\<open>syncReadingProgress\<close> over the records read at its start:
  a rejected \<^verbatim>\<open>fetch\<close> throws out of the loop; a resolved one, whatever its status,
  is followed by the deletion of the record. The result is the exception thrown (if any),
  the object store and the requests sent.
\<close>

fun drain_loop :: "network \<Rightarrow> item list \<Rightarrow> item list \<Rightarrow> js_error option \<times> item list \<times> request list" where
  "drain_loop net [] store = (None, store, [])"
| "drain_loop net (it # rest) store =
     (case net (replay_request it) of
        Rejected \<Rightarrow> (Some TypeError, store, [replay_request it])
      | Resolved resp \<Rightarrow>
          (case drain_loop net rest (db_delete (item_id it) store) of
             (e, store', calls) \<Rightarrow> (e, store', replay_request it # calls)))"

record sync_report =
  sr_caught :: "js_error option"
  sr_world :: world
  sr_calls :: "request list"

text \<open>
  Every exception is caught and logged by the \<^verbatim>\<open>try\<close> block (\<open>sr_caught\<close>).
  \<open>idb_opens\<close> tells whether \<^verbatim>\<open>indexedDB.open\<close> succeeds.
\<close>

definition syncReadingProgress :: "network \<Rightarrow> bool \<Rightarrow> world \<Rightarrow> sync_report" where
  "syncReadingProgress net idb_opens w =
     (if \<not> idb_opens then
        \<lparr>sr_caught = Some OpenError, sr_world = w, sr_calls = []\<rparr>
      else if ''getAll'' \<notin> set IDBDatabase_members then
        \<lparr>sr_caught = Some TypeError, sr_world = w, sr_calls = []\<rparr>
      else
        case drain_loop net (pending_sync w) (pending_sync w) of
          (e, store', calls) \<Rightarrow>
            \<lparr>sr_caught = e, sr_world = w\<lparr>pending_sync := store'\<rparr>, sr_calls = calls\<rparr>)"

text \<open>
  The sync handler: \<open>None\<close> when it returns without starting a drain, otherwise the
  report of the drain given to \<^verbatim>\<open>event.waitUntil\<close>.
\<close>

definition onSync :: "string \<Rightarrow> network \<Rightarrow> bool \<Rightarrow> world \<Rightarrow> sync_report option \<times> world" where
  "onSync tag net idb_opens w =
     (if tag = ''sync-reading-progress'' then
        (let rep = syncReadingProgress net idb_opens w in (Some rep, sr_world rep))
      else (None, w))"

section \<open>Push\<close>

text \<open>
  \<^verbatim>\<open>event.data\<close> is \<^verbatim>\<open>null\<close> (\<open>None\<close>) or a message whose \<^verbatim>\<open>json()\<close> throws a
  \<^verbatim>\<open>SyntaxError\<close> (\<open>Malformed\<close>) or yields the parsed value.
\<close>

datatype push_message_data = Malformed | Json json

record push_event =
  push_data :: "push_message_data option"

text \<open>
  Reading one of the properties \<^verbatim>\<open>body\<close>, \<^verbatim>\<open>id\<close>, \<^verbatim>\<open>actions\<close>, \<^verbatim>\<open>title\<close> of a
  parsed value: \<^verbatim>\<open>null\<close> throws, an object yields its field or \<^verbatim>\<open>undefined\<close>
  (\<open>None\<close>), every other value has none of these properties.
\<close>

fun get_prop :: "json \<Rightarrow> string \<Rightarrow> js_error + json option" where
  "get_prop JNull p = Inl TypeError"
| "get_prop (JObj fs) p = Inr (map_of fs p)"
| "get_prop v p = Inr None"

fun truthy :: "json \<Rightarrow> bool" where
  "truthy JNull = False"
| "truthy (JBool b) = b"
| "truthy (JNum n) = (n \<noteq> 0)"
| "truthy (JStr s) = (s \<noteq> [])"
| "truthy (JArr xs) = True"
| "truthy (JObj fs) = True"

text \<open>The call \<^verbatim>\<open>self.registration.showNotification(title, options)\<close>.\<close>

record notification =
  n_title :: "json option"
  n_body :: "json option"
  n_icon :: string
  n_badge :: string
  n_vibrate :: "nat list"
  n_dateOfArrival :: nat
  n_primaryKey :: "json option"
  n_actions :: json

text \<open>
  The push handler: \<open>Inl\<close> is an exception thrown out of the listener, \<open>Inr None\<close> a
  return without any notification, \<open>Inr (Some n)\<close> the notification requested.
  \<open>now\<close> is the value of \<^verbatim>\<open>Date.now()\<close>.
\<close>

definition onPush :: "nat \<Rightarrow> push_event \<Rightarrow> js_error + notification option" where
  "onPush now ev =
     (case push_data ev of
        None \<Rightarrow> Inr None
      | Some Malformed \<Rightarrow> Inl SyntaxError
      | Some (Json d) \<Rightarrow>
          (case get_prop d ''body'' of
             Inl e \<Rightarrow> Inl e
           | Inr body \<Rightarrow>
               (case get_prop d ''id'' of
                  Inl e \<Rightarrow> Inl e
                | Inr ident \<Rightarrow>
                    (case get_prop d ''actions'' of
                       Inl e \<Rightarrow> Inl e
                     | Inr acts \<Rightarrow>
                         (case get_prop d ''title'' of
                            Inl e \<Rightarrow> Inl e
                          | Inr title \<Rightarrow>
                              Inr (Some
                                \<lparr>n_title = title, n_body = body,
                                 n_icon = ''/assets/icons/icon-192x192.png'',
                                 n_badge = ''/assets/icons/badge-72x72.png'',
                                 n_vibrate = [100, 50, 100],
                                 n_dateOfArrival = now,
                                 n_primaryKey = ident,
                                 n_actions =
                                   (case acts of
                                      Some a \<Rightarrow> if truthy a then a else JArr []
                                    | None \<Rightarrow> JArr [])\<rparr>))))))"

section \<open>Runs, well-formed storage, failing fetches\<close>

text \<open>A run of fetch events, each with the network as it is when the event arrives.\<close>

fun fetch_run :: "(network \<times> request) list \<Rightarrow> world \<Rightarrow> world" where
  "fetch_run [] w = w"
| "fetch_run ((net, r) # evs) w = fetch_run evs (fr_world (onFetch net r w))"

text \<open>
  The Cache API stores requests of the schemes http and https only
  (\<^verbatim>\<open>cache.put\<close> and \<^verbatim>\<open>cache.addAll\<close> throw on any other scheme), so no cache
  holds a key of the scheme \<^verbatim>\<open>chrome-extension\<close>.
\<close>

definition storage_wf :: "cache_storage \<Rightarrow> bool" where
  "storage_wf cs =
     list_all (\<lambda>(name, c). list_all (\<lambda>(u, r). \<not> startsWith u ''chrome-extension://'') c) cs"

text \<open>A manifest entry fails when its fetch rejects or resolves with a status outside 200..299.\<close>

definition fetch_fails :: "network \<Rightarrow> string \<Rightarrow> bool" where
  "fetch_fails net u =
     (case net (get_request u) of Rejected \<Rightarrow> True | Resolved r \<Rightarrow> \<not> response_ok r)"

section \<open>Example states and events\<close>

definition page_200 :: response where
  "page_200 =
     \<lparr>resp_status = 200, resp_statusText = ''OK'', resp_type = Basic,
      resp_headers = [(''content-type'', ''text/html'')], resp_body = ''<html></html>''\<rparr>"

definition net_down :: network where
  "net_down = (\<lambda>r. Rejected)"

definition net_up :: network where
  "net_up = (\<lambda>r. Resolved page_200)"

definition net_missing_profile :: network where
  "net_missing_profile =
     (\<lambda>r. if req_url r = ''/profile.html'' then Resolved (page_200\<lparr>resp_status := 404\<rparr>)
          else Resolved page_200)"

definition net_second_rejects :: network where
  "net_second_rejects =
     (\<lambda>r. if req_url r = ''/api/progress/2'' then Rejected else Resolved page_200)"

definition net_second_500 :: network where
  "net_second_500 =
     (\<lambda>r. if req_url r = ''/api/progress/2''
          then Resolved (page_200\<lparr>resp_status := 500, resp_statusText := ''Internal Server Error''\<rparr>)
          else Resolved page_200)"

definition w_empty :: world where
  "w_empty = \<lparr>caches = [], pending_sync = []\<rparr>"

text \<open>The stores after a first installation in which every manifest entry was fetched.\<close>

definition w_installed :: world where
  "w_installed = ir_world (install net_up w_empty)"

definition old_generation :: world where
  "old_generation =
     \<lparr>caches = [(''literaverse-v2'', [(''/'', page_200)]),
                (''literaverse-v3'', [(''/index.html'', page_200)])],
      pending_sync = []\<rparr>"

definition op1 :: item where
  "op1 = \<lparr>item_id = 1, item_url = ''/api/progress/1'', item_data = JObj [(''page'', JNum 10)]\<rparr>"

definition op2 :: item where
  "op2 = \<lparr>item_id = 2, item_url = ''/api/progress/2'', item_data = JObj [(''page'', JNum 20)]\<rparr>"

definition op3 :: item where
  "op3 = \<lparr>item_id = 3, item_url = ''/api/progress/3'', item_data = JObj [(''page'', JNum 30)]\<rparr>"

definition three_queued :: world where
  "three_queued = \<lparr>caches = [], pending_sync = [op1, op2, op3]\<rparr>"

definition page_request :: request where
  "page_request =
     \<lparr>req_method = ''GET'', req_url = ''/library.html'',
      req_headers = [(''accept'', ''text/html,application/xhtml+xml'')], req_body = None\<rparr>"

definition index_request :: request where
  "index_request =
     \<lparr>req_method = ''GET'', req_url = ''/index.html'',
      req_headers = [(''accept'', ''text/html'')], req_body = None\<rparr>"

definition script_request :: request where
  "script_request =
     \<lparr>req_method = ''GET'', req_url = ''/vendor.js'',
      req_headers = [(''accept'', ''*/*'')], req_body = None\<rparr>"

definition bare_request :: request where
  "bare_request =
     \<lparr>req_method = ''GET'', req_url = ''/api/books'', req_headers = [], req_body = None\<rparr>"

definition post_progress :: request where
  "post_progress =
     \<lparr>req_method = ''POST'', req_url = ''/api/progress/sync'',
      req_headers = [(''content-type'', ''application/json'')],
      req_body = Some (JObj [(''page'', JNum 12)])\<rparr>"

section \<open>Facts about the storage operations\<close>

lemma fold_delete_filter:
  "fold (\<lambda>cacheName cs. if cacheName \<noteq> CACHE_NAME then caches_delete cacheName cs else cs) names cs
     = filter (\<lambda>p. fst p = CACHE_NAME \<or> fst p \<notin> set names) cs"
proof (induction names arbitrary: cs)
  case Nil
  then show ?case by simp
next
  case (Cons n names)
  show ?case
  proof (cases "n = CACHE_NAME")
    case True
    then show ?thesis using Cons.IH [of cs] by (auto intro: filter_cong)
  next
    case False
    then show ?thesis
      using Cons.IH [of "caches_delete n cs"]
      by (auto simp: caches_delete_def AList.delete_eq intro: filter_cong)
  qed
qed

lemma activate_caches: "caches (activate w) = filter (\<lambda>p. fst p = CACHE_NAME) (caches w)"
  unfolding activate_def caches_keys_def
  by (auto simp: fold_delete_filter intro: filter_cong)

lemma filter_name_distinct:
  "distinct (map fst cs) \<Longrightarrow>
   filter (\<lambda>p. fst p = n) cs = (case map_of cs n of None \<Rightarrow> [] | Some c \<Rightarrow> [(n, c)])"
proof (induction cs)
  case Nil
  then show ?case by simp
next
  case (Cons p cs)
  obtain k c where p: "p = (k, c)" by (cases p)
  show ?case
  proof (cases "k = n")
    case True
    with Cons.prems p have "n \<notin> fst ` set cs" by auto
    then have "filter (\<lambda>p. fst p = n) cs = []" by (auto simp: filter_empty_conv)
    with True p show ?thesis by simp
  next
    case False
    with Cons p show ?thesis by simp
  qed
qed

lemma map_of_filter_name:
  "map_of (filter (\<lambda>p. fst p = n) cs) g = (if g = n then map_of cs n else None)"
  by (induction cs) auto

lemma storage_wf_match:
  "storage_wf cs \<Longrightarrow> caches_match cs u = Some r \<Longrightarrow> \<not> startsWith u ''chrome-extension://''"
proof (induction cs)
  case Nil
  then show ?case by simp
next
  case (Cons p cs)
  obtain name c where p: "p = (name, c)" by (cases p)
  show ?case
  proof (cases "map_of c u")
    case None
    with Cons p show ?thesis by (simp add: storage_wf_def)
  next
    case (Some r')
    then have "(u, r') \<in> set c" by (rule map_of_SomeD)
    with Cons.prems(1) p show ?thesis
      by (auto simp: storage_wf_def list_all_iff)
  qed
qed

lemma cache_get_caches_put:
  "cache_get (caches_put n u r cs) name k =
     (if name = n \<and> k = u then Some r else cache_get cs name k)"
  by (auto simp: cache_get_def caches_put_def caches_store_def cache_put_def opened_def
      update_conv' split: option.splits)

lemma cache_get_reopen:
  "cache_get (caches_store n (opened cs n) cs) name u = cache_get cs name u"
  by (auto simp: cache_get_def caches_store_def opened_def update_conv' split: option.splits)

lemma fetch_all_None: "fetch_all net urls = None \<longleftrightarrow> (\<exists>u \<in> set urls. fetch_fails net u)"
  by (induction urls) (auto simp: fetch_fails_def split: fetch_result.splits option.splits)

lemma caches_match_None:
  "caches_match cs u = None \<longleftrightarrow> (\<forall>(name, c) \<in> set cs. map_of c u = None)"
  by (induction cs) (auto split: option.splits)

lemma fetch_all_keys: "fetch_all net urls = Some es \<Longrightarrow> map fst es = urls"
  by (induction urls arbitrary: es) (auto split: fetch_result.splits option.splits if_splits)

lemma map_of_fold_put:
  "u \<notin> fst ` set es \<Longrightarrow> map_of (fold (\<lambda>(k, r). cache_put k r) es c) u = map_of c u"
  by (induction es arbitrary: c) (auto simp: cache_put_def update_conv')

lemma opened_None:
  "caches_match cs u = None \<Longrightarrow> map_of (opened cs name) u = None"
  by (auto simp: opened_def caches_match_None split: option.splits dest!: map_of_SomeD)

lemma set_update_subset: "set (AList.update k v al) \<subseteq> insert (k, v) (set al)"
  by (induction al) auto

lemma caches_match_store_None:
  assumes "caches_match cs u = None" and "map_of c u = None"
  shows "caches_match (caches_store name c cs) u = None"
proof -
  have "\<forall>(n, c') \<in> insert (name, c) (set cs). map_of c' u = None"
    using assms by (simp add: caches_match_None)
  with set_update_subset [of name c cs] show ?thesis
    unfolding caches_match_None caches_store_def by blast
qed

text \<open>
  No installation, complete or failed, puts \<^verbatim>\<open>'/offline.html'\<close> into a cache: the
  manifest does not list it.
\<close>

lemma install_never_caches_offline_page:
  assumes "caches_match (caches w) ''/offline.html'' = None"
  shows "caches_match (caches (ir_world (install net w))) ''/offline.html'' = None"
proof (cases "fetch_all net urlsToCache")
  case None
  then show ?thesis
    using assms
    by (simp add: install_def install_with_def cache_addAll_def caches_match_store_None opened_None)
next
  case (Some es)
  then have "map fst es = urlsToCache" by (rule fetch_all_keys)
  then have "fst ` set es = set urlsToCache" by (metis set_map)
  then have "''/offline.html'' \<notin> fst ` set es" by (simp add: urlsToCache_def)
  then have "map_of (fold (\<lambda>(k, r). cache_put k r) es (opened (caches w) CACHE_NAME)) ''/offline.html'' = None"
    using assms by (simp add: map_of_fold_put opened_None)
  with Some assms show ?thesis
    by (simp add: install_def install_with_def cache_addAll_def caches_match_store_None)
qed

section \<open>Facts about the fetch handler\<close>

lemma onFetch_write:
  assumes "cache_get (caches (fr_world (onFetch net r w))) name u = Some resp"
  shows "cache_get (caches w) name u = Some resp
       \<or> (name = CACHE_NAME \<and> resp_status resp = 200 \<and> resp_type resp = Basic
          \<and> req_method r = ''GET'' \<and> req_url r = u \<and> net r = Resolved resp)"
  using assms
  by (auto simp: onFetch_def cache_get_caches_put
      split: if_splits option.splits fetch_result.splits)

lemma onFetch_pending_sync: "pending_sync (fr_world (onFetch net r w)) = pending_sync w"
  by (auto simp: onFetch_def split: option.splits fetch_result.splits)

text \<open>
  The two fallbacks of the \<^verbatim>\<open>catch\<close> branch, for a request that carries an
  \<^verbatim>\<open>Accept\<close> header: the generic response has status 503 and a plain-text body, the
  document fallback is whatever the caches hold under \<^verbatim>\<open>'/offline.html'\<close>.
\<close>

lemma offline_other_is_503:
  assumes "req_method r = ''GET''" and "\<not> startsWith (req_url r) ''chrome-extension://''"
    and "caches_match (caches w) (req_url r) = None" and "net r = Rejected"
    and "headers_get (req_headers r) ''accept'' = Some accept"
    and "\<not> str_includes accept ''text/html''"
  shows "fr_outcome (onFetch net r w) = Resolved_with (Some offline_response)"
  using assms by (simp add: onFetch_def)

lemma offline_document_is_lookup:
  assumes "req_method r = ''GET''" and "\<not> startsWith (req_url r) ''chrome-extension://''"
    and "caches_match (caches w) (req_url r) = None" and "net r = Rejected"
    and "headers_get (req_headers r) ''accept'' = Some accept"
    and "str_includes accept ''text/html''"
  shows "fr_outcome (onFetch net r w) = Resolved_with (caches_match (caches w) ''/offline.html'')"
  using assms by (simp add: onFetch_def)

section \<open>Facts about the drain\<close>

text \<open>
  \<^verbatim>\<open>getAll\<close> is not a member of the database handle, so the call
  \<^verbatim>\<open>db.getAll('pending_sync')\<close> throws inside the \<^verbatim>\<open>try\<close> block: whatever the
  queue and the network, the drain sends nothing and removes nothing.
\<close>

lemma syncReadingProgress_inert:
  "syncReadingProgress net idb_opens w =
     \<lparr>sr_caught = Some (if idb_opens then TypeError else OpenError), sr_world = w, sr_calls = []\<rparr>"
  by (simp add: syncReadingProgress_def IDBDatabase_members_def)

text \<open>
  The loop on its own, had it been given the records: it stops at the first rejected
  \<^verbatim>\<open>fetch\<close> and keeps that record and the later ones in order, and it deletes a record
  after any resolved \<^verbatim>\<open>fetch\<close>, a response of status 500 included, since the response
  is never inspected.
\<close>

lemma drain_loop_store:
  "fst (snd (drain_loop net items store)) =
     filter (\<lambda>x. item_id x \<notin> item_id `
        set (takeWhile (\<lambda>it. net (replay_request it) \<noteq> Rejected) items)) store"
proof (induction items arbitrary: store)
  case Nil
  then show ?case by simp
next
  case (Cons it items)
  show ?case
  proof (cases "net (replay_request it)")
    case Rejected
    then show ?thesis by simp
  next
    case (Resolved resp)
    then show ?thesis
      using Cons.IH [of "db_delete (item_id it) store"]
      by (auto simp: db_delete_def split: prod.splits intro: filter_cong)
  qed
qed

lemma drain_loop_calls:
  "snd (snd (drain_loop net items store)) =
     map replay_request (takeWhile (\<lambda>it. net (replay_request it) \<noteq> Rejected) items)
     @ map replay_request (take 1 (dropWhile (\<lambda>it. net (replay_request it) \<noteq> Rejected) items))"
proof (induction items arbitrary: store)
  case Nil
  then show ?case by simp
next
  case (Cons it items)
  show ?case
  proof (cases "net (replay_request it)")
    case Rejected
    then show ?thesis by simp
  next
    case (Resolved resp)
    then show ?thesis
      using Cons.IH [of "db_delete (item_id it) store"]
      by (auto split: prod.splits)
  qed
qed

lemma drain_loop_halts_at_rejection:
  "drain_loop net_second_rejects [op1, op2, op3] [op1, op2, op3]
     = (Some TypeError, [op2, op3], [replay_request op1, replay_request op2])"
  by (simp add: net_second_rejects_def replay_request_def db_delete_def op1_def op2_def op3_def)

lemma drain_loop_deletes_on_error_status:
  "drain_loop net_second_500 [op1, op2, op3] [op1, op2, op3]
     = (None, [], [replay_request op1, replay_request op2, replay_request op3])"
  by (simp add: net_second_500_def replay_request_def db_delete_def op1_def op2_def op3_def)

section \<open>Mutating requests\<close>

text \<open>
  C1, as the code has it. A request whose method is not GET is left to the browser: the
  fetch handler returns before \<^verbatim>\<open>event.respondWith\<close>, sends nothing itself and leaves
  the cache storage and the object store \<^verbatim>\<open>pending_sync\<close> as they were, whatever the
  network does. Nothing is appended to the queue.
\<close>

theorem mutating_request_passes_through:
  "req_method r \<noteq> ''GET'' \<Longrightarrow>
   onFetch net r w = \<lparr>fr_outcome = NotIntercepted, fr_world = w, fr_calls = []\<rparr>"
  by (simp add: onFetch_def)

theorem mutating_request_passes_through_witness:
  "req_method post_progress \<noteq> ''GET''
   \<and> onFetch net_down post_progress w_empty
       = \<lparr>fr_outcome = NotIntercepted, fr_world = w_empty, fr_calls = []\<rparr>"
proof -
  have m: "req_method post_progress \<noteq> ''GET''" by (simp add: post_progress_def)
  from mutating_request_passes_through [OF m, of net_down w_empty] m show ?thesis by simp
qed

text \<open>
  A POST issued while the network is down does not make the queue one record longer.
\<close>

theorem mutating_request_not_queued_counterexample:
  "length (pending_sync (fr_world (onFetch net_down post_progress w_empty)))
     \<noteq> length (pending_sync w_empty) + 1"
  by (simp add: onFetch_def post_progress_def)

section \<open>Degraded responses\<close>

text \<open>
  C2, at the stores left by a complete installation. \<^verbatim>\<open>'/offline.html'\<close> is not an
  entry of \<open>urlsToCache\<close>, so after the installation no cache holds it: a GET request
  for an uncached page that accepts \<^verbatim>\<open>text/html\<close>, with the network down, is
  answered with \<^verbatim>\<open>undefined\<close> and not with the offline placeholder.
\<close>

theorem offline_page_not_cached:
  "caches_match (caches w_installed) ''/offline.html'' = None
   \<and> caches_match (caches w_installed) (req_url page_request) = None
   \<and> net_down page_request = Rejected
   \<and> fr_outcome (onFetch net_down page_request w_installed) = Resolved_with None"
  by code_simp

text \<open>
  The request of this example is a document request (its \<^verbatim>\<open>Accept\<close> header includes
  \<^verbatim>\<open>text/html\<close>), and no response at all comes back for it.
\<close>

theorem offline_page_not_cached_witness:
  "req_method page_request = ''GET''
   \<and> headers_get (req_headers page_request) ''accept'' = Some ''text/html,application/xhtml+xml''
   \<and> str_includes ''text/html,application/xhtml+xml'' ''text/html''
   \<and> (\<forall>resp. fr_outcome (onFetch net_down page_request w_installed)
         \<noteq> Resolved_with (Some resp))"
  using offline_page_not_cached
  by (simp add: page_request_def headers_get_def)

section \<open>Draining the queue\<close>

text \<open>
  C3, at a queue of three records of which the second cannot be replayed. The drain
  throws at \<^verbatim>\<open>db.getAll\<close> before the loop, the exception is caught, no request is sent
  and the three records stay queued: the first record is not removed.
\<close>

theorem drain_never_replays:
  "sr_world (syncReadingProgress net_second_rejects True three_queued) = three_queued
   \<and> pending_sync (sr_world (syncReadingProgress net_second_rejects True three_queued))
       = [op1, op2, op3]
   \<and> sr_calls (syncReadingProgress net_second_rejects True three_queued) = []
   \<and> sr_caught (syncReadingProgress net_second_rejects True three_queued) = Some TypeError"
  by (simp add: syncReadingProgress_def IDBDatabase_members_def three_queued_def)

section \<open>Faults\<close>

text \<open>
  C4, at three events. A push message whose text is not JSON makes \<^verbatim>\<open>event.data.json()\<close>
  throw out of the push listener; a push message whose text is \<^verbatim>\<open>null\<close> makes the read
  of \<^verbatim>\<open>data.body\<close> throw; a GET request without \<^verbatim>\<open>Accept\<close> header, not cached and
  with the network down, makes the promise given to \<^verbatim>\<open>respondWith\<close> reject. None of
  the three yields a response or an enqueue.
\<close>

theorem handlers_fault:
  "onPush now \<lparr>push_data = Some Malformed\<rparr> = Inl SyntaxError
   \<and> onPush now \<lparr>push_data = Some (Json JNull)\<rparr> = Inl TypeError
   \<and> fr_outcome (onFetch net_down bare_request w_installed) = Rejected_with TypeError"
proof -
  have a: "onPush now \<lparr>push_data = Some Malformed\<rparr> = Inl SyntaxError"
    by (simp add: onPush_def)
  have b: "onPush now \<lparr>push_data = Some (Json JNull)\<rparr> = Inl TypeError"
    by (simp add: onPush_def)
  have c: "fr_outcome (onFetch net_down bare_request w_installed) = Rejected_with TypeError"
    by code_simp
  from a b c show ?thesis by simp
qed

text \<open>
  The request of this example has no \<^verbatim>\<open>Accept\<close> header; neither event ends in a
  response or in a notification.
\<close>

theorem handlers_fault_witness:
  "headers_get (req_headers bare_request) ''accept'' = None
   \<and> (\<forall>resp. fr_outcome (onFetch net_down bare_request w_installed)
         \<noteq> Resolved_with resp)
   \<and> (\<forall>shown. onPush 0 \<lparr>push_data = Some Malformed\<rparr> \<noteq> Inr shown)"
  using handlers_fault [of 0]
  by (simp add: bare_request_def headers_get_def)

section \<open>Push payloads\<close>

text \<open>
  C5, as the code has it. A push event without data shows nothing; a message that is not
  JSON shows nothing; a message that parses to an object always requests a notification,
  whose title, body and correlation id are the fields \<^verbatim>\<open>title\<close>, \<^verbatim>\<open>body\<close> and
  \<^verbatim>\<open>id\<close> of the object (\<^verbatim>\<open>undefined\<close> when absent) and whose actions are the field
  \<^verbatim>\<open>actions\<close> or the empty list. The empty object is no exception.
\<close>

theorem push_displays_every_object:
  "onPush now \<lparr>push_data = None\<rparr> = Inr None
   \<and> (\<forall>n. onPush now \<lparr>push_data = Some Malformed\<rparr> \<noteq> Inr (Some n))
   \<and> onPush now \<lparr>push_data = Some (Json (JObj fs))\<rparr> =
       Inr (Some
         \<lparr>n_title = map_of fs ''title'', n_body = map_of fs ''body'',
          n_icon = ''/assets/icons/icon-192x192.png'',
          n_badge = ''/assets/icons/badge-72x72.png'',
          n_vibrate = [100, 50, 100],
          n_dateOfArrival = now,
          n_primaryKey = map_of fs ''id'',
          n_actions = (case map_of fs ''actions'' of
                         Some a \<Rightarrow> if truthy a then a else JArr []
                       | None \<Rightarrow> JArr [])\<rparr>)"
  by (simp add: onPush_def)

theorem push_displays_every_object_witness:
  "onPush 7 \<lparr>push_data = Some (Json (JObj []))\<rparr> =
       Inr (Some
         \<lparr>n_title = None, n_body = None,
          n_icon = ''/assets/icons/icon-192x192.png'',
          n_badge = ''/assets/icons/badge-72x72.png'',
          n_vibrate = [100, 50, 100],
          n_dateOfArrival = 7,
          n_primaryKey = None,
          n_actions = JArr []\<rparr>)
   \<and> onPush 7 \<lparr>push_data =
        Some (Json (JObj [(''title'', JStr ''T''), (''body'', JStr ''B''), (''id'', JStr ''42'')]))\<rparr> =
       Inr (Some
         \<lparr>n_title = Some (JStr ''T''), n_body = Some (JStr ''B''),
          n_icon = ''/assets/icons/icon-192x192.png'',
          n_badge = ''/assets/icons/badge-72x72.png'',
          n_vibrate = [100, 50, 100],
          n_dateOfArrival = 7,
          n_primaryKey = Some (JStr ''42''),
          n_actions = JArr []\<rparr>)"
  using push_displays_every_object [of 7 "[]"]
    push_displays_every_object
      [of 7 "[(''title'', JStr ''T''), (''body'', JStr ''B''), (''id'', JStr ''42'')]"]
  by simp

text \<open>
  The empty object does produce a display request: \<^verbatim>\<open>showNotification\<close> is called
  with an undefined title and body.
\<close>

theorem push_empty_object_counterexample:
  "onPush 0 \<lparr>push_data = Some (Json (JObj []))\<rparr> =
     Inr (Some
       \<lparr>n_title = None, n_body = None,
        n_icon = ''/assets/icons/icon-192x192.png'',
        n_badge = ''/assets/icons/badge-72x72.png'',
        n_vibrate = [100, 50, 100],
        n_dateOfArrival = 0,
        n_primaryKey = None,
        n_actions = JArr []\<rparr>)
   \<and> onPush 0 \<lparr>push_data = Some (Json (JObj []))\<rparr> \<noteq> Inr None"
  by (simp add: onPush_def)

section \<open>Cache first\<close>

text \<open>
  C6. For every GET request whose URL has an entry in the cache storage, the fetch handler
  answers with that entry, sends no request to the network and changes no store. The
  storage is one the Cache API can hold (no key of the scheme \<^verbatim>\<open>chrome-extension\<close>).
\<close>

theorem cache_hit_no_network:
  assumes "storage_wf (caches w)"
    and "req_method r = ''GET''"
    and "caches_match (caches w) (req_url r) = Some cached"
  shows "onFetch net r w = \<lparr>fr_outcome = Resolved_with (Some cached), fr_world = w, fr_calls = []\<rparr>"
  using assms storage_wf_match [OF assms(1) assms(3)]
  by (simp add: onFetch_def)

theorem cache_hit_no_network_witness:
  "storage_wf (caches w_installed)
   \<and> req_method index_request = ''GET''
   \<and> caches_match (caches w_installed) (req_url index_request) = Some page_200
   \<and> onFetch net_down index_request w_installed
       = \<lparr>fr_outcome = Resolved_with (Some page_200), fr_world = w_installed, fr_calls = []\<rparr>"
proof -
  have a: "storage_wf (caches w_installed)" by code_simp
  have b: "req_method index_request = ''GET''" by (simp add: index_request_def)
  have c: "caches_match (caches w_installed) (req_url index_request) = Some page_200" by code_simp
  from cache_hit_no_network [OF a b c, of net_down] a b c show ?thesis by simp
qed

section \<open>Purging old generations\<close>

text \<open>
  C7. After the activate handler no entry of a cache named otherwise than \<open>CACHE_NAME\<close> can
  be read, every entry of the cache \<open>CACHE_NAME\<close> reads as before, \<^verbatim>\<open>caches.match\<close>
  finds exactly the entries of that cache, a second activation changes nothing, and the
  queue is untouched. Cache names are unique, as the cache storage keeps them.
\<close>

theorem activate_purges:
  assumes "distinct (map fst (caches w))"
  shows "(\<forall>g u. g \<noteq> CACHE_NAME \<longrightarrow> cache_get (caches (activate w)) g u = None)
       \<and> (\<forall>u. cache_get (caches (activate w)) CACHE_NAME u = cache_get (caches w) CACHE_NAME u)
       \<and> (\<forall>u. caches_match (caches (activate w)) u = cache_get (caches w) CACHE_NAME u)
       \<and> activate (activate w) = activate w
       \<and> pending_sync (activate w) = pending_sync w"
proof -
  have other: "\<forall>g u. g \<noteq> CACHE_NAME \<longrightarrow> cache_get (caches (activate w)) g u = None"
    by (simp add: cache_get_def activate_caches map_of_filter_name)
  have current: "\<forall>u. cache_get (caches (activate w)) CACHE_NAME u = cache_get (caches w) CACHE_NAME u"
    by (simp add: cache_get_def activate_caches map_of_filter_name)
  have "caches (activate w) =
      (case map_of (caches w) CACHE_NAME of None \<Rightarrow> [] | Some c \<Rightarrow> [(CACHE_NAME, c)])"
    using assms by (simp add: activate_caches filter_name_distinct)
  then have match: "\<forall>u. caches_match (caches (activate w)) u = cache_get (caches w) CACHE_NAME u"
    by (auto simp: cache_get_def split: option.splits)
  have "caches (activate (activate w)) = caches (activate w)"
    by (simp add: activate_caches)
  moreover have q: "\<And>v. pending_sync (activate v) = pending_sync v"
    by (simp add: activate_def)
  ultimately have idem: "activate (activate w) = activate w"
    by (simp add: activate_def)
  from other current match idem q show ?thesis by blast
qed

theorem activate_purges_witness:
  "distinct (map fst (caches old_generation))
   \<and> ''literaverse-v2'' \<noteq> CACHE_NAME
   \<and> cache_get (caches old_generation) ''literaverse-v2'' ''/'' = Some page_200
   \<and> cache_get (caches (activate old_generation)) ''literaverse-v2'' ''/'' = None
   \<and> cache_get (caches (activate old_generation)) CACHE_NAME ''/index.html'' = Some page_200
   \<and> activate (activate old_generation) = activate old_generation"
proof -
  have d: "distinct (map fst (caches old_generation))"
    by (simp add: old_generation_def)
  have n: "''literaverse-v2'' \<noteq> CACHE_NAME"
    by (simp add: CACHE_NAME_def)
  have a: "cache_get (caches old_generation) ''literaverse-v2'' ''/'' = Some page_200"
    by (simp add: old_generation_def cache_get_def)
  have b: "cache_get (caches old_generation) CACHE_NAME ''/index.html'' = Some page_200"
    by (simp add: old_generation_def cache_get_def CACHE_NAME_def)
  from activate_purges [OF d] n a b d show ?thesis by simp
qed

section \<open>Pre-population\<close>

text \<open>
  C8. For every manifest with an entry whose fetch fails, the install step fails as a
  whole: the promise given to \<^verbatim>\<open>waitUntil\<close> rejects, \<^verbatim>\<open>skipWaiting\<close> is not
  called, no entry of any cache is added or changed, and the queue is untouched.
\<close>

theorem install_all_or_nothing:
  assumes "\<exists>u \<in> set manifest. fetch_fails net u"
  shows "ir_result (install_with manifest net w) = Inl TypeError
       \<and> \<not> ir_skipWaiting (install_with manifest net w)
       \<and> (\<forall>name u. cache_get (caches (ir_world (install_with manifest net w))) name u
                    = cache_get (caches w) name u)
       \<and> pending_sync (ir_world (install_with manifest net w)) = pending_sync w"
proof -
  from assms have "fetch_all net manifest = None" by (simp add: fetch_all_None)
  then have "cache_addAll net manifest (opened (caches w) CACHE_NAME) = Inl TypeError"
    by (simp add: cache_addAll_def)
  then have "install_with manifest net w =
      \<lparr>ir_result = Inl TypeError, ir_skipWaiting = False,
       ir_world = w\<lparr>caches := caches_store CACHE_NAME (opened (caches w) CACHE_NAME) (caches w)\<rparr>\<rparr>"
    by (simp add: install_with_def)
  then show ?thesis by (simp add: cache_get_reopen)
qed

theorem install_all_or_nothing_witness:
  "(\<exists>u \<in> set urlsToCache. fetch_fails net_missing_profile u)
   \<and> ir_result (install net_missing_profile w_empty) = Inl TypeError
   \<and> \<not> ir_skipWaiting (install net_missing_profile w_empty)
   \<and> cache_get (caches (ir_world (install net_missing_profile w_empty))) CACHE_NAME ''/index.html''
       = None"
proof -
  have "fetch_fails net_missing_profile ''/profile.html''"
    by (simp add: fetch_fails_def net_missing_profile_def get_request_def response_ok_def page_200_def)
  moreover have "''/profile.html'' \<in> set urlsToCache"
    by (simp add: urlsToCache_def)
  ultimately have f: "\<exists>u \<in> set urlsToCache. fetch_fails net_missing_profile u" by blast
  have e: "cache_get (caches w_empty) CACHE_NAME ''/index.html'' = None"
    by (simp add: w_empty_def cache_get_def)
  from install_all_or_nothing [OF f, of w_empty] f e show ?thesis
    by (simp add: install_def)
qed

section \<open>What the fetch path writes\<close>

text \<open>
  C9. Over any run of fetch events, every cache entry that was not there at the start is
  an entry of the cache \<open>CACHE_NAME\<close>, has status 200 and type \<^verbatim>\<open>basic\<close>, and is the
  network's response to a GET request of the run for that URL. Responses of any other type
  (cross-origin, opaque) and responses to requests of other methods are never written.
\<close>

theorem fetch_writes_only_200_basic_GET:
  "cache_get (caches (fetch_run evs w)) name u = Some resp \<Longrightarrow>
   cache_get (caches w) name u = Some resp
   \<or> (name = CACHE_NAME \<and> resp_status resp = 200 \<and> resp_type resp = Basic
      \<and> (\<exists>(net, r) \<in> set evs. req_method r = ''GET'' \<and> req_url r = u \<and> net r = Resolved resp))"
proof (induction evs arbitrary: w)
  case Nil
  then show ?case by simp
next
  case (Cons ev evs)
  obtain net r where ev: "ev = (net, r)" by (cases ev)
  let ?w1 = "fr_world (onFetch net r w)"
  from Cons.prems ev have "cache_get (caches (fetch_run evs ?w1)) name u = Some resp"
    by simp
  from Cons.IH [OF this]
  consider (first) "cache_get (caches ?w1) name u = Some resp"
    | (later) "name = CACHE_NAME \<and> resp_status resp = 200 \<and> resp_type resp = Basic
        \<and> (\<exists>(net, r) \<in> set evs. req_method r = ''GET'' \<and> req_url r = u \<and> net r = Resolved resp)"
    by blast
  then show ?case
  proof cases
    case first
    from onFetch_write [OF first] ev show ?thesis by auto
  next
    case later
    then show ?thesis by auto
  qed
qed

theorem fetch_writes_only_200_basic_GET_witness:
  "cache_get (caches (fetch_run [(net_up, script_request)] w_empty)) CACHE_NAME ''/vendor.js''
     = Some page_200
   \<and> cache_get (caches w_empty) CACHE_NAME ''/vendor.js'' \<noteq> Some page_200
   \<and> resp_status page_200 = 200 \<and> resp_type page_200 = Basic
   \<and> req_method script_request = ''GET''"
proof -
  have a: "cache_get (caches (fetch_run [(net_up, script_request)] w_empty)) CACHE_NAME ''/vendor.js''
     = Some page_200"
    by code_simp
  have b: "cache_get (caches w_empty) CACHE_NAME ''/vendor.js'' \<noteq> Some page_200"
    by (simp add: w_empty_def cache_get_def)
  from fetch_writes_only_200_basic_GET [OF a] a b show ?thesis
    by (simp add: script_request_def)
qed

section \<open>Sync tags\<close>

text \<open>
  C10. For every sync event whose tag is not exactly \<^verbatim>\<open>'sync-reading-progress'\<close> the
  sync handler starts no drain and leaves the queue and the cache storage unchanged; a
  drain is started for that tag and for no other.
\<close>

theorem sync_other_tag_noop:
  "(tag \<noteq> ''sync-reading-progress'' \<longrightarrow> onSync tag net idb_opens w = (None, w))
   \<and> (fst (onSync tag net idb_opens w) \<noteq> None \<longleftrightarrow> tag = ''sync-reading-progress'')"
  by (simp add: onSync_def Let_def)

theorem sync_other_tag_noop_witness:
  "''sync-reading-progres'' \<noteq> ''sync-reading-progress''
   \<and> onSync ''sync-reading-progres'' net_up True old_generation = (None, old_generation)
   \<and> fst (onSync ''sync-reading-progress'' net_up True old_generation) \<noteq> None"
  using sync_other_tag_noop [of "''sync-reading-progres''" net_up True old_generation]
    sync_other_tag_noop [of "''sync-reading-progress''" net_up True old_generation]
  by simp

end
